theory Spec2Isabelle
  imports Complex_Main
begin

section \<open>The request pipeline of \<open>wire_nio/client/async_client.py\<close>\<close>

text \<open>
  A shallow embedding of \<open>AsyncClient\<close>: the session decorator \<open>client_session\<close>,
  \<open>send\<close>, \<open>parse_wire_response\<close>, \<open>receive_response\<close> and the retry loop of
  \<open>api_send\<close>. Exceptions are values (\<open>Inl\<close> of a sum), the network is a sequence of
  attempt outcomes, \<open>sleep\<close> and \<open>ClientSession.request\<close> are recorded as events, and
  the \<open>while True\<close> loop is a partial function in the option monad: \<open>None\<close> means that
  the call never returns.
\<close>

subsection \<open>Exceptions\<close>

datatype exn =
    ClientConnectionError
  | TimeoutError
  | AsyncioTimeoutError
  | ContentTypeError
  | JSONDecodeError
  | ValueError string
  | AssertionError
  | OtherException string

text \<open>The clause \<open>except (ClientConnectionError, TimeoutError, AsyncioTimeoutError)\<close>.\<close>

fun caught :: "exn \<Rightarrow> bool" where
  "caught ClientConnectionError = True"
| "caught TimeoutError = True"
| "caught AsyncioTimeoutError = True"
| "caught _ = False"

text \<open>
  What \<open>ClientResponse.json()\<close> raises on a body that is not structured data:
  \<open>ContentTypeError\<close> (a \<open>ClientResponseError\<close>) or \<open>json.JSONDecodeError\<close>
  (a \<open>ValueError\<close>).
\<close>

fun decode_error :: "exn \<Rightarrow> bool" where
  "decode_error ContentTypeError = True"
| "decode_error JSONDecodeError = True"
| "decode_error _ = False"

subsection \<open>Response classes and Python values\<close>

text \<open>
  Modelled from the spec: the module \<open>response\<close> is not part of the source at hand. These
  are the classes that \<open>async_client.py\<close> names; each one is a response variant, that is, a
  subclass of \<open>BaseResponse\<close> (the annotations \<open>Type[response.BaseResponse]\<close> and
  \<open>-> response.BaseResponse\<close>), and none derives from another.
\<close>

datatype response_class =
    BaseResponse
  | ErrorResponse
  | LoginResponse
  | UsersResponse
  | ConverstionsResponse
  | ClientsResponse
  | NotificationsResponse

fun issubclass :: "response_class \<Rightarrow> response_class \<Rightarrow> bool" where
  "issubclass c k = (c = k \<or> k = BaseResponse)"

text \<open>
  An instance of a response class: its class, the attribute \<open>retry_after_ms\<close>
  (\<open>None\<close> when the attribute is missing or holds \<open>None\<close>) and the decoded payload.
\<close>

record 'j response =
  resp_class :: response_class
  retry_after_ms :: "int option"
  payload :: 'j

text \<open>
  The Python values the code handles: a class object (what \<open>api_send\<close> receives as
  \<open>response_class\<close>), an instance of a response class, or any other value.
\<close>

datatype 'j pyval =
    ClassObj response_class
  | Instance "'j response"
  | Plain 'j

text \<open>
  \<open>isinstance(v, k)\<close> for a response class \<open>k\<close>. A class object is an instance of its
  metaclass \<open>type\<close>, never of a response class.
\<close>

fun isinstance :: "'j pyval \<Rightarrow> response_class \<Rightarrow> bool" where
  "isinstance (Instance r) k = issubclass (resp_class r) k"
| "isinstance (ClassObj c) k = False"
| "isinstance (Plain v) k = False"

text \<open>\<open>getattr(resp, "retry_after_ms", 0)\<close>, and Python's \<open>a or b\<close> on integers.\<close>

fun getattr_retry_after_ms :: "'j pyval \<Rightarrow> int option" where
  "getattr_retry_after_ms (Instance r) = retry_after_ms r"
| "getattr_retry_after_ms (ClassObj c) = Some 0"
| "getattr_retry_after_ms (Plain v) = Some 0"

definition py_or :: "int option \<Rightarrow> int \<Rightarrow> int" where
  "py_or a b = (case a of None \<Rightarrow> b | Some v \<Rightarrow> if v = 0 then b else v)"

subsection \<open>Configuration, sessions and the client\<close>

record config =
  request_timeout :: rat
  max_limit_exceeded :: "nat option"
  max_timeouts :: "nat option"

record 'a connection =
  opened_with :: 'a
  write_buffer_limit :: nat

datatype trace_config = TraceConfig

record 'a session =
  timeout_total :: rat
  trace_configs :: "trace_config list"
  connector_connect :: "'a \<Rightarrow> exn + 'a connection"

record ('a, 'st) client =
  client_session :: "'a session option"
  server :: string
  ssl :: bool
  proxy :: "string option"
  config :: config
  access_token :: string
  base :: 'st

text \<open>
  The collaborators that the source calls and does not define: the package version, the
  connector class's own \<open>connect\<close>, the constructor and \<open>parse_data\<close> of the response
  classes, and two methods of the base class \<open>Client\<close>. The two methods of the base
  class are taken as total functions; the others may raise.
\<close>

record ('a, 'j, 'st) externals =
  version :: string
  connect :: "'a \<Rightarrow> exn + 'a connection"
  construct :: "response_class \<Rightarrow> 'j pyval list \<Rightarrow> exn + 'j pyval"
  parse_data :: "'j pyval \<Rightarrow> 'j \<Rightarrow> exn + 'j pyval"
  get_timeout_retry_wait_time :: "nat \<Rightarrow> rat"
  super_receive_response :: "'j pyval \<Rightarrow> 'st \<Rightarrow> 'st"

definition USER_AGENT :: "('a, 'j, 'st) externals \<Rightarrow> string" where
  "USER_AGENT X = ''wire-nio/'' @ version X"

text \<open>
  \<open>AsyncClient.__init__\<close>. The configuration is the one the constructor ends up with
  (after the default and the coercion of a plain \<open>ClientConfig\<close>); the base class
  \<open>Client\<close> contributes the token and its own state.
\<close>

definition AsyncClient_init ::
  "config \<Rightarrow> string option \<Rightarrow> string \<Rightarrow> 'st \<Rightarrow> ('a, 'st) client" where
  "AsyncClient_init cfg prx tok st =
     \<lparr>client_session = None,
      server = ''https://prod-nginz-https.wire.com'',
      ssl = True,
      proxy = prx,
      config = cfg,
      access_token = tok,
      base = st\<rparr>"

subsection \<open>The session decorator\<close>

definition connect_wrapper ::
  "('a \<Rightarrow> exn + 'a connection) \<Rightarrow> 'a \<Rightarrow> exn + 'a connection" where
  "connect_wrapper class_connect args =
     (case class_connect args of
        Inl e \<Rightarrow> Inl e
      | Inr connection \<Rightarrow> Inr (connection\<lparr>write_buffer_limit := 16 * 1024\<rparr>))"

text \<open>\<open>ClientSession(timeout=ClientTimeout(total=t), trace_configs=[trace])\<close>.\<close>

definition ClientSession ::
  "('a, 'j, 'st) externals \<Rightarrow> rat \<Rightarrow> trace_config list \<Rightarrow> 'a session" where
  "ClientSession X t traces =
     \<lparr>timeout_total = t, trace_configs = traces, connector_connect = connect X\<rparr>"

text \<open>
  The inner function \<open>wrapper\<close> of the decorator \<open>client_session\<close>. The decorated function
  reads the client and returns a value; the client that \<open>wrapper\<close> may have changed is
  returned with it.
\<close>

definition wrapper ::
  "('a, 'j, 'st) externals \<Rightarrow> (('a, 'st) client \<Rightarrow> 'r) \<Rightarrow> ('a, 'st) client
     \<Rightarrow> ('a, 'st) client \<times> 'r" where
  "wrapper X func self =
     (if client_session self = None then
        let trace = TraceConfig;
            created = ClientSession X (request_timeout (config self)) [trace];
            self' = self\<lparr>client_session :=
                      Some (created\<lparr>connector_connect := connect_wrapper (connect X)\<rparr>)\<rparr>
        in (self', func self')
      else (self, func self))"

subsection \<open>Sending one request\<close>

record request =
  req_method :: string
  req_url :: string
  req_data :: "string option"
  req_ssl :: bool
  req_proxy :: "string option"
  req_headers :: "(string \<rightharpoonup> string) option"
  req_timeout :: rat

text \<open>
  The body of \<open>send\<close>: the request handed to \<open>client_session.request\<close>, or the failed
  assertion. What the network answers is the environment's part (see \<open>api_send_attempt\<close>).
\<close>

definition send_body ::
  "string \<Rightarrow> string \<Rightarrow> string option \<Rightarrow> (string \<rightharpoonup> string) option \<Rightarrow> rat option
     \<Rightarrow> ('a, 'st) client \<Rightarrow> exn + request" where
  "send_body method path data headers timeout self =
     (if client_session self = None then Inl AssertionError
      else Inr \<lparr>req_method = method,
                req_url = server self @ path,
                req_data = data,
                req_ssl = ssl self,
                req_proxy = proxy self,
                req_headers = headers,
                req_timeout = (case timeout of
                                 None \<Rightarrow> request_timeout (config self)
                               | Some t \<Rightarrow> t)\<rparr>)"

definition send ::
  "('a, 'j, 'st) externals \<Rightarrow> ('a, 'st) client \<Rightarrow> string \<Rightarrow> string \<Rightarrow> string option
     \<Rightarrow> (string \<rightharpoonup> string) option \<Rightarrow> rat option \<Rightarrow> ('a, 'st) client \<times> (exn + request)" where
  "send X self method path data headers timeout =
     wrapper X (send_body method path data headers timeout) self"

subsection \<open>Decoding a transport response\<close>

record 'j transport_response =
  status :: int
  content_type :: string
  json :: "exn + 'j"

definition parse_wire_response ::
  "('a, 'j, 'st) externals \<Rightarrow> response_class \<Rightarrow> 'j transport_response
     \<Rightarrow> 'j pyval list option \<Rightarrow> exn + 'j pyval" where
  "parse_wire_response X response_class transport_response data =
     (let data = (case data of None \<Rightarrow> [] | Some d \<Rightarrow> if d = [] then [] else d);
          content_type = content_type transport_response
      in case json transport_response of
           Inl e \<Rightarrow> Inl e
         | Inr content \<Rightarrow>
             (let is_json = (content_type = ''application/json'')
              in case construct X response_class [] of
                   Inl e \<Rightarrow> Inl e
                 | Inr obj \<Rightarrow> parse_data X obj content))"

subsection \<open>The state receiver\<close>

definition receive_response ::
  "('a, 'j, 'st) externals \<Rightarrow> ('a, 'st) client \<Rightarrow> 'j pyval \<Rightarrow> exn + ('a, 'st) client" where
  "receive_response X self resp =
     (if \<not> isinstance resp BaseResponse then Inl (ValueError ''Invalid response received'')
      else Inr (self\<lparr>base := super_receive_response X resp (base self)\<rparr>))"

subsection \<open>Headers of \<open>api_send\<close>\<close>

definition digit_char :: "nat \<Rightarrow> char" where
  "digit_char d = char_of (48 + d)"

fun str_nat :: "nat \<Rightarrow> string" where
  "str_nat n = (if n < 10 then [digit_char n] else str_nat (n div 10) @ [digit_char (n mod 10)])"

declare str_nat.simps [simp del]

definition str_int :: "int \<Rightarrow> string" where
  "str_int i = (if i < 0 then CHR ''-'' # str_nat (nat (- i)) else str_nat (nat i))"

definition api_send_headers ::
  "('a, 'j, 'st) externals \<Rightarrow> ('a, 'st) client \<Rightarrow> response_class \<Rightarrow> string option
     \<Rightarrow> int option \<Rightarrow> (string \<rightharpoonup> string)" where
  "api_send_headers X self response_class ctype content_length =
     (let headers = [''Content-Type'' \<mapsto>
                       (case ctype of
                          None \<Rightarrow> ''application/json''
                        | Some ct \<Rightarrow> if ct = [] then ''application/json'' else ct),
                     ''Accept'' \<mapsto> ''*/*'',
                     ''User-Agent'' \<mapsto> USER_AGENT X];
          headers = (if \<not> isinstance (ClassObj response_class :: 'j pyval) LoginResponse
                     then headers(''Authorization'' \<mapsto> ''Bearer '' @ access_token self)
                     else headers);
          headers = (case content_length of
                       None \<Rightarrow> headers
                     | Some n \<Rightarrow> headers(''Content-Length'' \<mapsto> str_int n))
      in headers)"

subsection \<open>The retry loop of \<open>api_send\<close>\<close>

text \<open>
  What the call does to the outside: a request handed to the session, or a \<open>sleep\<close> of
  so many seconds. Durations are exact rationals: \<open>retry_after_ms / 1000\<close> stands for the
  float that Python's true division gives.
\<close>

datatype event = Request request | Sleep rat

text \<open>
  The variables of the loop: the client, the two counters, and what was done so far
  (\<open>sent\<close> counts the requests of this call and selects the network's next answer).
\<close>

record ('a, 'st) retry_state =
  this :: "('a, 'st) client"
  got_429 :: nat
  got_timeouts :: nat
  sent :: nat
  events :: "event list"

text \<open>What is fixed before the loop starts.\<close>

record 'j call =
  call_class :: response_class
  call_method :: string
  call_path :: string
  call_data :: "string option"
  call_response_data :: "'j pyval list option"
  call_timeout :: "rat option"
  call_headers :: "string \<rightharpoonup> string"
  max_429 :: "nat option"
  max_timeouts_of :: "nat option"

datatype ('s, 'v) control = Continue 's | Break 's 'v | Raise 's exn

text \<open>
  The \<open>except\<close> clause: an exception of another class leaves the loop as it is; a caught
  one is counted, re-raised beyond the ceiling, and otherwise followed by a sleep.
\<close>

definition on_exception ::
  "('a, 'j, 'st) externals \<Rightarrow> 'j call \<Rightarrow> ('a, 'st) retry_state \<Rightarrow> exn
     \<Rightarrow> (('a, 'st) retry_state, 'j pyval) control" where
  "on_exception X c s e =
     (if caught e then
        let s = s\<lparr>got_timeouts := got_timeouts s + 1\<rparr>
        in if (case max_timeouts_of c of None \<Rightarrow> False | Some m \<Rightarrow> got_timeouts s > m)
           then Raise s e
           else let wait = get_timeout_retry_wait_time X (got_timeouts s)
                in Continue (s\<lparr>events := events s @ [Sleep wait]\<rparr>)
      else Raise s e)"

text \<open>The branch on a decoded response.\<close>

definition on_response ::
  "'j call \<Rightarrow> ('a, 'st) retry_state \<Rightarrow> 'j transport_response \<Rightarrow> 'j pyval
     \<Rightarrow> (('a, 'st) retry_state, 'j pyval) control" where
  "on_response c s transport_resp resp =
     (if status transport_resp = 429 \<or> isinstance resp ErrorResponse then
        let s = s\<lparr>got_429 := got_429 s + 1\<rparr>
        in if (case max_429 c of None \<Rightarrow> False | Some m \<Rightarrow> got_429 s > m)
           then Break s resp
           else let retry_after_ms = py_or (getattr_retry_after_ms resp) 5000
                in Continue (s\<lparr>events := events s @ [Sleep (of_int retry_after_ms / 1000)]\<rparr>)
      else Break s resp)"

text \<open>One pass through the body of \<open>while True\<close>; \<open>env\<close> is what the network answers.\<close>

definition api_send_attempt ::
  "('a, 'j, 'st) externals \<Rightarrow> (nat \<Rightarrow> exn + 'j transport_response) \<Rightarrow> 'j call
     \<Rightarrow> ('a, 'st) retry_state \<Rightarrow> (('a, 'st) retry_state, 'j pyval) control" where
  "api_send_attempt X env c s =
     (case send X (this s) (call_method c) (call_path c) (call_data c)
             (Some (call_headers c)) (call_timeout c) of
        (self', handed) \<Rightarrow>
          (let s = s\<lparr>this := self'\<rparr>
           in case handed of
                Inl e \<Rightarrow> on_exception X c s e
              | Inr req \<Rightarrow>
                  (let answer = env (sent s);
                       s = s\<lparr>sent := sent s + 1, events := events s @ [Request req]\<rparr>
                   in case answer of
                        Inl e \<Rightarrow> on_exception X c s e
                      | Inr transport_resp \<Rightarrow>
                          (case parse_wire_response X (call_class c) transport_resp
                                  (call_response_data c) of
                             Inl e \<Rightarrow> on_exception X c s e
                           | Inr resp \<Rightarrow> on_response c s transport_resp resp))))"

partial_function (option) api_send_loop ::
  "('a, 'j, 'st) externals \<Rightarrow> (nat \<Rightarrow> exn + 'j transport_response) \<Rightarrow> 'j call
     \<Rightarrow> ('a, 'st) retry_state \<Rightarrow> (('a, 'st) retry_state \<times> (exn + 'j pyval)) option" where
  "api_send_loop X env c s =
     (case api_send_attempt X env c s of
        Continue s' \<Rightarrow> api_send_loop X env c s'
      | Break s' resp \<Rightarrow> Some (s', Inr resp)
      | Raise s' e \<Rightarrow> Some (s', Inl e))"

declare api_send_loop.simps [code]

text \<open>
  What follows the loop: an exception leaves the call as it is, a response goes through
  \<open>receive_response\<close> and is returned. The result is the raised exception or the returned
  response, with the final state; \<open>None\<close> when the call never returns.
\<close>

definition api_send_from ::
  "('a, 'j, 'st) externals \<Rightarrow> (nat \<Rightarrow> exn + 'j transport_response) \<Rightarrow> 'j call
     \<Rightarrow> ('a, 'st) retry_state \<Rightarrow> ((exn + 'j pyval) \<times> ('a, 'st) retry_state) option" where
  "api_send_from X env c s =
     (case api_send_loop X env c s of
        None \<Rightarrow> None
      | Some (s', Inl e) \<Rightarrow> Some (Inl e, s')
      | Some (s', Inr resp) \<Rightarrow>
          (case receive_response X (this s') resp of
             Inl e \<Rightarrow> Some (Inl e, s')
           | Inr self' \<Rightarrow> Some (Inr resp, s'\<lparr>this := self'\<rparr>)))"

text \<open>\<open>api_send\<close>: the headers and the counters, then the loop and what follows it.\<close>

definition api_send ::
  "('a, 'j, 'st) externals \<Rightarrow> (nat \<Rightarrow> exn + 'j transport_response) \<Rightarrow> ('a, 'st) client
     \<Rightarrow> response_class \<Rightarrow> string \<Rightarrow> string \<Rightarrow> string option \<Rightarrow> 'j pyval list option
     \<Rightarrow> string option \<Rightarrow> rat option \<Rightarrow> int option
     \<Rightarrow> ((exn + 'j pyval) \<times> ('a, 'st) retry_state) option" where
  "api_send X env self response_class method path data response_data ctype timeout
       content_length =
     (let headers = api_send_headers X self response_class ctype content_length;
          c = \<lparr>call_class = response_class, call_method = method, call_path = path,
               call_data = data, call_response_data = response_data,
               call_timeout = timeout, call_headers = headers,
               max_429 = max_limit_exceeded (config self),
               max_timeouts_of = max_timeouts (config self)\<rparr>;
          s = \<lparr>this = self, got_429 = 0, got_timeouts = 0, sent = 0, events = []\<rparr>
      in api_send_from X env c s)"

subsection \<open>Notions used to state the properties\<close>

text \<open>The client as \<open>wrapper\<close> leaves it, whatever the decorated function is.\<close>

definition ensured :: "('a, 'j, 'st) externals \<Rightarrow> ('a, 'st) client \<Rightarrow> ('a, 'st) client" where
  "ensured X self = fst (wrapper X (\<lambda>_. ()) self)"

text \<open>The request that an attempt of the call \<open>c\<close> hands to the session of \<open>self\<close>.\<close>

definition request_of :: "'j call \<Rightarrow> ('a, 'st) client \<Rightarrow> request" where
  "request_of c self =
     \<lparr>req_method = call_method c,
      req_url = server self @ call_path c,
      req_data = call_data c,
      req_ssl = ssl self,
      req_proxy = proxy self,
      req_headers = Some (call_headers c),
      req_timeout = (case call_timeout c of
                       None \<Rightarrow> request_timeout (config self)
                     | Some t \<Rightarrow> t)\<rparr>"



text \<open>An answer that decodes to a response which is neither a 429 nor an error variant.\<close>

definition succeeded ::
  "('a, 'j, 'st) externals \<Rightarrow> 'j call \<Rightarrow> (exn + 'j transport_response) \<Rightarrow> 'j pyval \<Rightarrow> bool" where
  "succeeded X c answer resp =
     (case answer of
        Inl e \<Rightarrow> False
      | Inr transport_resp \<Rightarrow>
          parse_wire_response X (call_class c) transport_resp (call_response_data c) = Inr resp
          \<and> status transport_resp \<noteq> 429 \<and> \<not> isinstance resp ErrorResponse)"

text \<open>The call record and the first loop state that \<open>api_send\<close> builds.\<close>

definition call_of ::
  "('a, 'j, 'st) externals \<Rightarrow> ('a, 'st) client \<Rightarrow> response_class \<Rightarrow> string \<Rightarrow> string
     \<Rightarrow> string option \<Rightarrow> 'j pyval list option \<Rightarrow> string option \<Rightarrow> rat option \<Rightarrow> int option
     \<Rightarrow> 'j call" where
  "call_of X self response_class method path data response_data ctype timeout content_length =
     \<lparr>call_class = response_class, call_method = method, call_path = path,
      call_data = data, call_response_data = response_data,
      call_timeout = timeout,
      call_headers = api_send_headers X self response_class ctype content_length,
      max_429 = max_limit_exceeded (config self),
      max_timeouts_of = max_timeouts (config self)\<rparr>"

definition start :: "('a, 'st) client \<Rightarrow> ('a, 'st) retry_state" where
  "start self = \<lparr>this = self, got_429 = 0, got_timeouts = 0, sent = 0, events = []\<rparr>"

subsection \<open>A concrete client, for running the definitions\<close>

text \<open>
  Collaborators with a visible behaviour: connections open with the transport's default
  limit of 64 KiB, a body \<open>0\<close> decodes to an error variant that asks for 1500 ms, any
  other body to an instance of the requested class, the timeout policy waits two seconds
  per failure so far, and the base class counts the responses it has received.
\<close>

definition example_externals :: "(string, nat, nat) externals" where
  "example_externals =
     \<lparr>version = ''0.0.1'',
      connect = (\<lambda>host. Inr \<lparr>opened_with = host, write_buffer_limit = 65536\<rparr>),
      construct = (\<lambda>k args. Inr (Instance \<lparr>resp_class = k, retry_after_ms = None, payload = 0\<rparr>)),
      parse_data = (\<lambda>obj content.
         if content = 0
         then Inr (Instance \<lparr>resp_class = ErrorResponse, retry_after_ms = Some 1500,
                             payload = content\<rparr>)
         else (case obj of
                 Instance r \<Rightarrow> Inr (Instance (r\<lparr>payload := content\<rparr>))
               | ClassObj k \<Rightarrow> Inr obj
               | Plain v \<Rightarrow> Inr obj)),
      get_timeout_retry_wait_time = (\<lambda>n. 2 * of_nat n),
      super_receive_response = (\<lambda>resp st. st + 1)\<rparr>"

definition example_client :: "nat option \<Rightarrow> nat option \<Rightarrow> (string, nat) client" where
  "example_client limit_ceiling timeout_ceiling =
     AsyncClient_init
       \<lparr>request_timeout = 60, max_limit_exceeded = limit_ceiling,
        max_timeouts = timeout_ceiling\<rparr>
       None ''token'' 0"

definition answer :: "int \<Rightarrow> nat \<Rightarrow> exn + nat transport_response" where
  "answer code body = Inr \<lparr>status = code, content_type = ''application/json'', json = Inr body\<rparr>"

definition example_call :: "nat option \<Rightarrow> nat option \<Rightarrow> nat call" where
  "example_call limit_ceiling timeout_ceiling =
     call_of example_externals (example_client limit_ceiling timeout_ceiling)
       UsersResponse ''GET'' ''/users'' None None None None None"

section \<open>Properties\<close>

subsection \<open>The session decorator and \<open>send\<close>\<close>

lemma fst_send: "fst (send X self m p d h t) = ensured X self"
  by (simp add: send_def wrapper_def ensured_def Let_def)

lemma ensured_fields [simp]:
  "server (ensured X self) = server self"
  "ssl (ensured X self) = ssl self"
  "proxy (ensured X self) = proxy self"
  "config (ensured X self) = config self"
  "access_token (ensured X self) = access_token self"
  "base (ensured X self) = base self"
  by (simp_all add: ensured_def wrapper_def Let_def)

lemma ensured_idem [simp]: "ensured X (ensured X self) = ensured X self"
  by (simp add: ensured_def wrapper_def Let_def)

lemma ensured_None:
  "client_session self = None \<Longrightarrow>
   ensured X self =
     self\<lparr>client_session := Some \<lparr>timeout_total = request_timeout (config self),
                                    trace_configs = [TraceConfig],
                                    connector_connect = connect_wrapper (connect X)\<rparr>\<rparr>"
  by (simp add: ensured_def wrapper_def ClientSession_def Let_def)

lemma ensured_Some: "client_session self \<noteq> None \<Longrightarrow> ensured X self = self"
  by (simp add: ensured_def wrapper_def)

lemma connect_wrapper_limit:
  "connect_wrapper class_connect args = Inr conn \<Longrightarrow> write_buffer_limit conn = 16384"
  by (auto simp add: connect_wrapper_def split: sum.splits)

lemma snd_send:
  "snd (send X self meth path data headers timeout) =
     Inr \<lparr>req_method = meth, req_url = server self @ path, req_data = data,
          req_ssl = ssl self, req_proxy = proxy self, req_headers = headers,
          req_timeout = (case timeout of None \<Rightarrow> request_timeout (config self) | Some t \<Rightarrow> t)\<rparr>"
  by (simp add: send_def wrapper_def send_body_def Let_def split: option.split)

lemma send_eq:
  "send X self (call_method c) (call_path c) (call_data c) (Some (call_headers c)) (call_timeout c)
     = (ensured X self, Inr (request_of c self))"
  using fst_send [of X self "call_method c" "call_path c" "call_data c" "Some (call_headers c)"
      "call_timeout c"]
    snd_send [of X self "call_method c" "call_path c" "call_data c" "Some (call_headers c)"
      "call_timeout c"]
  by (simp add: request_of_def prod_eq_iff)

lemma request_of_ensured [simp]: "request_of c (ensured X self) = request_of c self"
  by (simp add: request_of_def split: option.split)

text \<open>
  C8. Session initialisation is lazy and idempotent. A send on a client without a session
  leaves the client with one new session, whose total timeout is
  \<open>config.request_timeout\<close> and whose connector gives every connection it opens a
  write-buffer limit of 16 KiB (16384 bytes); a send on a client that has a session leaves
  the client, and so its session, unchanged; hence a second send creates nothing.
\<close>

theorem client_session_lazy_idempotent:
  "(client_session self = None \<longrightarrow>
      fst (send X self meth path data headers timeout) =
        self\<lparr>client_session := Some \<lparr>timeout_total = request_timeout (config self),
                                       trace_configs = [TraceConfig],
                                       connector_connect = connect_wrapper (connect X)\<rparr>\<rparr>
      \<and> (\<forall>args conn. connect_wrapper (connect X) args = Inr conn
             \<longrightarrow> write_buffer_limit conn = 16 * 1024))
   \<and> (client_session self \<noteq> None \<longrightarrow>
        fst (send X self meth path data headers timeout) = self)
   \<and> fst (send X (fst (send X self meth path data headers timeout)) method'
             path' data' headers' timeout')
       = fst (send X self meth path data headers timeout)"
  by (simp add: fst_send ensured_None ensured_Some connect_wrapper_limit)

theorem client_session_lazy_idempotent_witness:
  "client_session (example_client None None) = None
   \<and> map_option timeout_total
        (client_session (fst (send example_externals (example_client None None)
           ''GET'' ''/users'' None None None))) = Some 60
   \<and> connect_wrapper (connect example_externals) ''prod-nginz-https.wire.com''
        = Inr \<lparr>opened_with = ''prod-nginz-https.wire.com'', write_buffer_limit = 16384\<rparr>
   \<and> client_session (fst (send example_externals (example_client None None)
          ''GET'' ''/users'' None None None)) \<noteq> None
   \<and> fst (send example_externals
            (fst (send example_externals (example_client None None)
               ''GET'' ''/users'' None None None))
            ''GET'' ''/clients'' None None None)
       = fst (send example_externals (example_client None None)
            ''GET'' ''/users'' None None None)"
proof -
  let ?c = "example_client None None :: (string, nat) client"
  have none: "client_session ?c = None"
    by (simp add: example_client_def AsyncClient_init_def)
  have opened: "connect_wrapper (connect example_externals) ''prod-nginz-https.wire.com''
        = Inr \<lparr>opened_with = ''prod-nginz-https.wire.com'', write_buffer_limit = 16384\<rparr>"
    by (simp add: connect_wrapper_def example_externals_def)
  note inst = client_session_lazy_idempotent
    [of ?c example_externals "''GET''" "''/users''" None None None
        "''GET''" "''/clients''" None None None]
  let ?after = "fst (send example_externals ?c ''GET'' ''/users'' None None None)"
  have first: "?after =
      ?c\<lparr>client_session := Some \<lparr>timeout_total = request_timeout (config ?c),
                                   trace_configs = [TraceConfig],
                                   connector_connect = connect_wrapper (connect example_externals)\<rparr>\<rparr>"
    using inst none by blast
  have again: "fst (send example_externals ?after ''GET'' ''/clients'' None None None) = ?after"
    using inst by blast
  have total: "request_timeout (config ?c) = 60"
    by (simp add: example_client_def AsyncClient_init_def)
  show ?thesis
  proof (intro conjI)
    show "client_session ?c = None" by (rule none)
    show "map_option timeout_total (client_session ?after) = Some 60"
      by (simp add: first total)
    show "connect_wrapper (connect example_externals) ''prod-nginz-https.wire.com''
        = Inr \<lparr>opened_with = ''prod-nginz-https.wire.com'', write_buffer_limit = 16384\<rparr>"
      by (rule opened)
    show "client_session ?after \<noteq> None" by (simp add: first)
    show "fst (send example_externals ?after ''GET'' ''/clients'' None None None) = ?after"
      by (rule again)
  qed
qed

text \<open>
  C9. The request that \<open>send\<close> hands to the session has the explicit timeout when one is
  given and \<open>config.request_timeout\<close> when none is, and its URL is the client's server
  URL followed by the path; \<open>send\<close> does not change the server URL, which the
  constructor sets to the fixed base URL.
\<close>

theorem send_url_and_timeout:
  "snd (send X self meth path data headers (Some t)) =
     Inr \<lparr>req_method = meth, req_url = server self @ path, req_data = data,
          req_ssl = ssl self, req_proxy = proxy self, req_headers = headers, req_timeout = t\<rparr>
   \<and> snd (send X self meth path data headers None) =
     Inr \<lparr>req_method = meth, req_url = server self @ path, req_data = data,
          req_ssl = ssl self, req_proxy = proxy self, req_headers = headers,
          req_timeout = request_timeout (config self)\<rparr>
   \<and> server (fst (send X self meth path data headers timeout)) = server self
   \<and> server (AsyncClient_init cfg prx tok st :: ('a, 'st) client)
       = ''https://prod-nginz-https.wire.com''"
  by (simp add: snd_send fst_send AsyncClient_init_def)

subsection \<open>One pass through the loop\<close>

lemma attempt_answer:
  "api_send_attempt X env c s =
     (let s1 = \<lparr>this = ensured X (this s), got_429 = got_429 s, got_timeouts = got_timeouts s,
                 sent = sent s + 1, events = events s @ [Request (request_of c (this s))]\<rparr>
      in case env (sent s) of
           Inl e \<Rightarrow> on_exception X c s1 e
         | Inr tr \<Rightarrow> (case parse_wire_response X (call_class c) tr (call_response_data c) of
               Inl e \<Rightarrow> on_exception X c s1 e
             | Inr resp \<Rightarrow> on_response c s1 tr resp))"
  by (cases s) (simp add: api_send_attempt_def send_eq Let_def)



lemma attempt_succeeded:
  assumes "succeeded X c (env (sent s)) resp"
  shows "api_send_attempt X env c s =
     Break \<lparr>this = ensured X (this s), got_429 = got_429 s, got_timeouts = got_timeouts s,
             sent = sent s + 1, events = events s @ [Request (request_of c (this s))]\<rparr> resp"
  using assms
  by (auto simp add: attempt_answer succeeded_def on_response_def Let_def split: sum.splits)

lemma attempt_timeout:
  assumes "env (sent s) = Inl e" and "caught e"
    and "case max_timeouts_of c of None \<Rightarrow> True | Some m \<Rightarrow> got_timeouts s < m"
  shows "api_send_attempt X env c s =
     Continue \<lparr>this = ensured X (this s), got_429 = got_429 s, got_timeouts = got_timeouts s + 1,
                sent = sent s + 1,
                events = events s @ [Request (request_of c (this s)),
                  Sleep (get_timeout_retry_wait_time X (got_timeouts s + 1))]\<rparr>"
  using assms
  by (auto simp add: attempt_answer on_exception_def Let_def split: option.splits)

lemma attempt_timeout_exceeded:
  assumes "env (sent s) = Inl e" and "caught e"
    and "max_timeouts_of c = Some m" and "m \<le> got_timeouts s"
  shows "api_send_attempt X env c s =
     Raise \<lparr>this = ensured X (this s), got_429 = got_429 s, got_timeouts = got_timeouts s + 1,
             sent = sent s + 1, events = events s @ [Request (request_of c (this s))]\<rparr> e"
  using assms
  by (auto simp add: attempt_answer on_exception_def Let_def)

lemma attempt_decode_error:
  assumes "env (sent s) = Inr tr" and "json tr = Inl e" and "decode_error e"
  shows "api_send_attempt X env c s =
     Raise \<lparr>this = ensured X (this s), got_429 = got_429 s, got_timeouts = got_timeouts s,
             sent = sent s + 1, events = events s @ [Request (request_of c (this s))]\<rparr> e"
proof -
  have "\<not> caught e" using assms(3) by (cases e) simp_all
  then show ?thesis using assms(1,2)
    by (simp add: attempt_answer parse_wire_response_def on_exception_def Let_def)
qed


lemma attempt_ensured:
  "api_send_attempt X env c (s\<lparr>this := ensured X (this s)\<rparr>) = api_send_attempt X env c s"
  by (simp add: attempt_answer)

subsection \<open>The loop\<close>

lemma loop_ensured:
  "api_send_loop X env c (s\<lparr>this := ensured X (this s)\<rparr>) = api_send_loop X env c s"
proof -
  let ?s = "s\<lparr>this := ensured X (this s)\<rparr>"
  have "api_send_loop X env c ?s =
      (case api_send_attempt X env c ?s of
         Continue s' \<Rightarrow> api_send_loop X env c s'
       | Break s' resp \<Rightarrow> Some (s', Inr resp)
       | Raise s' e \<Rightarrow> Some (s', Inl e))"
    by (rule api_send_loop.simps)
  also have "\<dots> =
      (case api_send_attempt X env c s of
         Continue s' \<Rightarrow> api_send_loop X env c s'
       | Break s' resp \<Rightarrow> Some (s', Inr resp)
       | Raise s' e \<Rightarrow> Some (s', Inl e))"
    by (simp only: attempt_ensured)
  also have "\<dots> = api_send_loop X env c s"
    by (rule api_send_loop.simps [symmetric])
  finally show ?thesis .
qed

lemma loop_continue:
  "api_send_attempt X env c s = Continue s' \<Longrightarrow> api_send_loop X env c s = api_send_loop X env c s'"
  by (subst api_send_loop.simps) simp

lemma loop_break:
  "api_send_attempt X env c s = Break s' resp \<Longrightarrow> api_send_loop X env c s = Some (s', Inr resp)"
  by (subst api_send_loop.simps) simp

lemma loop_raise:
  "api_send_attempt X env c s = Raise s' e \<Longrightarrow> api_send_loop X env c s = Some (s', Inl e)"
  by (subst api_send_loop.simps) simp


lemma loop_timeout_prefix:
  assumes "\<forall>i<K. env (sent s + i) = Inl (errs i) \<and> caught (errs i)"
    and "case max_timeouts_of c of None \<Rightarrow> True | Some m \<Rightarrow> got_timeouts s + K \<le> m"
  shows "api_send_loop X env c s =
     api_send_loop X env c
       \<lparr>this = ensured X (this s), got_429 = got_429 s, got_timeouts = got_timeouts s + K,
        sent = sent s + K,
        events = events s @ concat (map (\<lambda>i. [Request (request_of c (this s)),
                   Sleep (get_timeout_retry_wait_time X (got_timeouts s + i + 1))]) [0..<K])\<rparr>"
  using assms
proof (induction K)
  case 0
  show ?case using loop_ensured [of X env c s] by (cases s) simp
next
  case (Suc K)
  let ?sK = "\<lparr>this = ensured X (this s), got_429 = got_429 s, got_timeouts = got_timeouts s + K,
        sent = sent s + K,
        events = events s @ concat (map (\<lambda>i. [Request (request_of c (this s)),
                   Sleep (get_timeout_retry_wait_time X (got_timeouts s + i + 1))]) [0..<K])\<rparr>"
  have below: "case max_timeouts_of c of None \<Rightarrow> True | Some m \<Rightarrow> got_timeouts s + K \<le> m"
    using Suc.prems(2) by (simp split: option.splits)
  have "api_send_loop X env c s = api_send_loop X env c ?sK"
    using Suc.IH Suc.prems(1) below by simp
  moreover have "env (sent ?sK) = Inl (errs K)" and "caught (errs K)"
    using Suc.prems(1) by simp_all
  moreover have "case max_timeouts_of c of None \<Rightarrow> True | Some m \<Rightarrow> got_timeouts ?sK < m"
    using Suc.prems(2) by (simp split: option.splits)
  ultimately show ?case
    using loop_continue [OF attempt_timeout [of env ?sK "errs K" c X]] by simp
qed


subsection \<open>The whole call\<close>

lemma api_send_unfold:
  "api_send X env self rc meth path data rd ctype timeout cl =
     api_send_from X env (call_of X self rc meth path data rd ctype timeout cl) (start self)"
  by (simp add: api_send_def call_of_def start_def Let_def)

lemma from_raise:
  "api_send_loop X env c s = Some (s', Inl e) \<Longrightarrow> api_send_from X env c s = Some (Inl e, s')"
  by (simp add: api_send_from_def)

lemma from_break:
  "api_send_loop X env c s = Some (s', Inr resp) \<Longrightarrow> isinstance resp BaseResponse \<Longrightarrow>
   api_send_from X env c s =
     Some (Inr resp, s'\<lparr>this := (this s')\<lparr>base := super_receive_response X resp (base (this s'))\<rparr>\<rparr>)"
  by (simp add: api_send_from_def receive_response_def)




lemma start_fields [simp]:
  "this (start self) = self" "got_429 (start self) = 0" "got_timeouts (start self) = 0"
  "sent (start self) = 0" "events (start self) = []"
  by (simp_all add: start_def)

lemma call_of_ceilings [simp]:
  "max_429 (call_of X self rc meth path data rd ctype timeout cl) = max_limit_exceeded (config self)"
  "max_timeouts_of (call_of X self rc meth path data rd ctype timeout cl) = max_timeouts (config self)"
  by (simp_all add: call_of_def)

subsection \<open>Facts about the concrete client\<close>


lemma example_parse_success:
  "0 < body \<Longrightarrow>
   parse_wire_response example_externals k
     \<lparr>status = code, content_type = ''application/json'', json = Inr body\<rparr> rd
   = Inr (Instance \<lparr>resp_class = k, retry_after_ms = None, payload = body\<rparr>)"
  by (simp add: parse_wire_response_def example_externals_def)

lemma example_call_fields [simp]:
  "call_class (example_call a b) = UsersResponse"
  "call_response_data (example_call a b) = None"
  by (simp_all add: example_call_def call_of_def)

lemma example_client_fields [simp]:
  "max_limit_exceeded (config (example_client a b)) = a"
  "max_timeouts (config (example_client a b)) = b"
  "base (example_client a b) = 0"
  by (simp_all add: example_client_def AsyncClient_init_def)

lemma example_hook [simp]: "super_receive_response example_externals resp st = st + 1"
  by (simp add: example_externals_def)

lemma example_wait [simp]: "get_timeout_retry_wait_time example_externals n = 2 * of_nat n"
  by (simp add: example_externals_def)

subsection \<open>Retries and their ceilings\<close>





text \<open>
  C4. When the first \<open>K\<close> attempts raise a connection or timeout error, attempt \<open>K + 1\<close>
  is a success, and \<open>K\<close> is at most the timeout ceiling (or there is none), \<open>api_send\<close>
  makes \<open>K + 1\<close> requests, sleeps after failure number \<open>i\<close> for
  \<open>get_timeout_retry_wait_time(i)\<close>, and returns the success variant. When the ceiling is
  \<open>m\<close> and the first \<open>m + 1\<close> attempts all fail so, it makes \<open>m + 1\<close> requests
  (\<open>m\<close> retries) and re-raises the exception of the last attempt.
\<close>

theorem timeouts_then_success_or_reraise:
  fixes X :: "('a, 'j, 'st) externals"
    and self rc meth path data rd ctype timeout cl
  defines "c \<equiv> call_of X self rc meth path data rd ctype timeout cl"
  shows
  "((\<forall>i<K. env i = Inl (errs i) \<and> caught (errs i))
      \<and> succeeded X c (env K) resp \<and> isinstance resp BaseResponse
      \<and> (case max_timeouts (config self) of None \<Rightarrow> True | Some m \<Rightarrow> K \<le> m)
    \<longrightarrow> api_send X env self rc meth path data rd ctype timeout cl =
          Some (Inr resp,
                \<lparr>this = (ensured X self)\<lparr>base := super_receive_response X resp (base self)\<rparr>,
                 got_429 = 0, got_timeouts = K, sent = K + 1,
                 events = concat (map (\<lambda>i. [Request (request_of c self),
                                 Sleep (get_timeout_retry_wait_time X (i + 1))]) [0..<K])
                          @ [Request (request_of c self)]\<rparr>))
   \<and> (max_timeouts (config self) = Some m
        \<and> (\<forall>i\<le>m. env i = Inl (errs i) \<and> caught (errs i))
    \<longrightarrow> api_send X env self rc meth path data rd ctype timeout cl =
          Some (Inl (errs m),
                \<lparr>this = ensured X self,
                 got_429 = 0, got_timeouts = m + 1, sent = m + 1,
                 events = concat (map (\<lambda>i. [Request (request_of c self),
                                 Sleep (get_timeout_retry_wait_time X (i + 1))]) [0..<m])
                          @ [Request (request_of c self)]\<rparr>))"
proof (intro conjI impI)
  assume hyps: "(\<forall>i<K. env i = Inl (errs i) \<and> caught (errs i))
      \<and> succeeded X c (env K) resp \<and> isinstance resp BaseResponse
      \<and> (case max_timeouts (config self) of None \<Rightarrow> True | Some m \<Rightarrow> K \<le> m)"
  let ?sK = "\<lparr>this = ensured X self, got_429 = 0, got_timeouts = K, sent = K,
              events = concat (map (\<lambda>i. [Request (request_of c self),
                              Sleep (get_timeout_retry_wait_time X (i + 1))]) [0..<K])\<rparr>"
  have "api_send_loop X env c (start self) = api_send_loop X env c ?sK"
    using loop_timeout_prefix [where s = "start self" and env = env and c = c and X = X
        and K = K and errs = errs] hyps
    by (simp add: c_def split: option.splits)
  moreover have "succeeded X c (env (sent ?sK)) resp"
    using hyps by simp
  ultimately have "api_send_loop X env c (start self) =
      Some (\<lparr>this = ensured X self, got_429 = 0, got_timeouts = K, sent = K + 1,
             events = concat (map (\<lambda>i. [Request (request_of c self),
                             Sleep (get_timeout_retry_wait_time X (i + 1))]) [0..<K])
                      @ [Request (request_of c self)]\<rparr>, Inr resp)"
    using loop_break [OF attempt_succeeded [where env = env and s = ?sK and c = c and X = X]]
    by simp
  from from_break [OF this] hyps
  show "api_send X env self rc meth path data rd ctype timeout cl =
          Some (Inr resp,
                \<lparr>this = (ensured X self)\<lparr>base := super_receive_response X resp (base self)\<rparr>,
                 got_429 = 0, got_timeouts = K, sent = K + 1,
                 events = concat (map (\<lambda>i. [Request (request_of c self),
                                 Sleep (get_timeout_retry_wait_time X (i + 1))]) [0..<K])
                          @ [Request (request_of c self)]\<rparr>)"
    by (simp add: api_send_unfold c_def)
next
  assume hyps: "max_timeouts (config self) = Some m
        \<and> (\<forall>i\<le>m. env i = Inl (errs i) \<and> caught (errs i))"
  let ?sm = "\<lparr>this = ensured X self, got_429 = 0, got_timeouts = m, sent = m,
              events = concat (map (\<lambda>i. [Request (request_of c self),
                              Sleep (get_timeout_retry_wait_time X (i + 1))]) [0..<m])\<rparr>"
  have "api_send_loop X env c (start self) = api_send_loop X env c ?sm"
    using loop_timeout_prefix [where s = "start self" and env = env and c = c and X = X
        and K = m and errs = errs] hyps
    by (simp add: c_def)
  moreover have "env (sent ?sm) = Inl (errs m)" and "caught (errs m)"
    using hyps by simp_all
  moreover have "max_timeouts_of c = Some m"
    using hyps by (simp add: c_def)
  ultimately have "api_send_loop X env c (start self) =
      Some (\<lparr>this = ensured X self, got_429 = 0, got_timeouts = m + 1, sent = m + 1,
             events = concat (map (\<lambda>i. [Request (request_of c self),
                             Sleep (get_timeout_retry_wait_time X (i + 1))]) [0..<m])
                      @ [Request (request_of c self)]\<rparr>, Inl (errs m))"
    using loop_raise [OF attempt_timeout_exceeded
        [where env = env and s = ?sm and c = c and X = X and m = m and e = "errs m"]]
    by simp
  from from_raise [OF this]
  show "api_send X env self rc meth path data rd ctype timeout cl =
          Some (Inl (errs m),
                \<lparr>this = ensured X self,
                 got_429 = 0, got_timeouts = m + 1, sent = m + 1,
                 events = concat (map (\<lambda>i. [Request (request_of c self),
                                 Sleep (get_timeout_retry_wait_time X (i + 1))]) [0..<m])
                          @ [Request (request_of c self)]\<rparr>)"
    by (simp add: api_send_unfold c_def)
qed

theorem timeouts_then_success_or_reraise_witness:
  "api_send example_externals
     (\<lambda>i. if i = 0 then Inl ClientConnectionError else if i = 1 then Inl TimeoutError
           else answer 200 7)
     (example_client None (Some 2)) UsersResponse ''GET'' ''/users'' None None None None None
   = Some (Inr (Instance \<lparr>resp_class = UsersResponse, retry_after_ms = None, payload = 7\<rparr>),
           \<lparr>this = (ensured example_externals (example_client None (Some 2)))\<lparr>base := 1\<rparr>,
            got_429 = 0, got_timeouts = 2, sent = 3,
            events = [Request (request_of (example_call None (Some 2)) (example_client None (Some 2))),
                      Sleep 2,
                      Request (request_of (example_call None (Some 2)) (example_client None (Some 2))),
                      Sleep 4,
                      Request (request_of (example_call None (Some 2)) (example_client None (Some 2)))]\<rparr>)
   \<and> api_send example_externals (\<lambda>i. Inl AsyncioTimeoutError)
     (example_client None (Some 1)) UsersResponse ''GET'' ''/users'' None None None None None
   = Some (Inl AsyncioTimeoutError,
           \<lparr>this = ensured example_externals (example_client None (Some 1)),
            got_429 = 0, got_timeouts = 2, sent = 2,
            events = [Request (request_of (example_call None (Some 1)) (example_client None (Some 1))),
                      Sleep 2,
                      Request (request_of (example_call None (Some 1)) (example_client None (Some 1)))]\<rparr>)"
proof
  let ?env = "\<lambda>i::nat. if i = 0 then Inl ClientConnectionError else if i = 1 then Inl TimeoutError
           else answer 200 7"
  let ?errs = "\<lambda>i::nat. if i = 0 then ClientConnectionError else TimeoutError"
  let ?resp = "Instance \<lparr>resp_class = UsersResponse, retry_after_ms = None, payload = 7::nat\<rparr>"
  have hyps: "(\<forall>i<2. ?env i = Inl (?errs i) \<and> caught (?errs i))
      \<and> succeeded example_externals (example_call None (Some 2)) (?env 2) ?resp
      \<and> isinstance ?resp BaseResponse
      \<and> (case max_timeouts (config (example_client None (Some 2))) of
            None \<Rightarrow> True | Some m \<Rightarrow> 2 \<le> m)"
    by (simp add: succeeded_def answer_def example_parse_success)
  from timeouts_then_success_or_reraise
    [where K = 2 and env = ?env and errs = ?errs and resp = ?resp and X = example_externals
       and self = "example_client None (Some 2)" and rc = UsersResponse and meth = "''GET''"
       and path = "''/users''" and data = None and rd = None and ctype = None
       and timeout = None and cl = None, THEN conjunct1, rule_format,
     OF hyps [unfolded example_call_def]]
  show "api_send example_externals ?env
     (example_client None (Some 2)) UsersResponse ''GET'' ''/users'' None None None None None
   = Some (Inr ?resp,
           \<lparr>this = (ensured example_externals (example_client None (Some 2)))\<lparr>base := 1\<rparr>,
            got_429 = 0, got_timeouts = 2, sent = 3,
            events = [Request (request_of (example_call None (Some 2)) (example_client None (Some 2))),
                      Sleep 2,
                      Request (request_of (example_call None (Some 2)) (example_client None (Some 2))),
                      Sleep 4,
                      Request (request_of (example_call None (Some 2)) (example_client None (Some 2)))]\<rparr>)"
    by (simp add: example_call_def numeral_2_eq_2)
next
  let ?env = "\<lambda>i::nat. Inl AsyncioTimeoutError :: exn + nat transport_response"
  let ?errs = "\<lambda>i::nat. AsyncioTimeoutError"
  have hyps: "max_timeouts (config (example_client None (Some 1))) = Some 1
      \<and> (\<forall>i\<le>1. ?env i = Inl (?errs i) \<and> caught (?errs i))"
    by simp
  from timeouts_then_success_or_reraise
    [where m = 1 and env = ?env and errs = ?errs and X = example_externals
       and self = "example_client None (Some 1)" and rc = UsersResponse and meth = "''GET''"
       and path = "''/users''" and data = None and rd = None and ctype = None
       and timeout = None and cl = None, THEN conjunct2, rule_format, OF hyps]
  show "api_send example_externals ?env
     (example_client None (Some 1)) UsersResponse ''GET'' ''/users'' None None None None None
   = Some (Inl AsyncioTimeoutError,
           \<lparr>this = ensured example_externals (example_client None (Some 1)),
            got_429 = 0, got_timeouts = 2, sent = 2,
            events = [Request (request_of (example_call None (Some 1)) (example_client None (Some 1))),
                      Sleep 2,
                      Request (request_of (example_call None (Some 1)) (example_client None (Some 1)))]\<rparr>)"
    by (simp add: example_call_def)
qed



text \<open>
  C7. A decode failure is not retried. Whatever the counters are, when the body of the
  answer cannot be decoded (\<open>json()\<close> raises \<open>ContentTypeError\<close> or
  \<open>JSONDecodeError\<close>), the exception is not one that the \<open>except\<close> clause catches,
  and the call ends by raising it: both counters keep their values, the request just made
  is the last event (no sleep follows, no further request is made).
\<close>

theorem decode_error_surfaces_immediately:
  assumes "env (sent s) = Inr tr" and "json tr = Inl e" and "decode_error e"
  shows "\<not> caught e \<and>
    api_send_from X env c s =
      Some (Inl e, \<lparr>this = ensured X (this s), got_429 = got_429 s,
                    got_timeouts = got_timeouts s, sent = sent s + 1,
                    events = events s @ [Request (request_of c (this s))]\<rparr>)"
proof
  show "\<not> caught e" using assms(3) by (cases e) simp_all
  show "api_send_from X env c s =
      Some (Inl e, \<lparr>this = ensured X (this s), got_429 = got_429 s,
                    got_timeouts = got_timeouts s, sent = sent s + 1,
                    events = events s @ [Request (request_of c (this s))]\<rparr>)"
    by (rule from_raise [OF loop_raise [OF attempt_decode_error [where env = env and s = s, OF assms]]])
qed

theorem decode_error_surfaces_immediately_witness:
  "api_send_from example_externals
     (\<lambda>i. Inr \<lparr>status = 200, content_type = ''text/html'', json = Inl ContentTypeError\<rparr>)
     (example_call (Some 3) (Some 3)) (start (example_client (Some 3) (Some 3)))
   = Some (Inl ContentTypeError,
           \<lparr>this = ensured example_externals (example_client (Some 3) (Some 3)),
            got_429 = 0, got_timeouts = 0, sent = 1,
            events = [Request (request_of (example_call (Some 3) (Some 3))
                                 (example_client (Some 3) (Some 3)))]\<rparr>)"
  using decode_error_surfaces_immediately
    [where env = "\<lambda>i. Inr \<lparr>status = 200, content_type = ''text/html'', json = Inl ContentTypeError\<rparr>"
       and s = "start (example_client (Some 3) (Some 3))"
       and tr = "\<lparr>status = 200, content_type = ''text/html'', json = Inl ContentTypeError\<rparr>"
       and e = ContentTypeError and X = example_externals and c = "example_call (Some 3) (Some 3)"]
  by simp

text \<open>
  C10. After an answer that decodes to a response variant, only the status 429 and the
  class \<open>ErrorResponse\<close> lead to a retry: for any other status (a 5xx included) and a
  variant that is not an \<open>ErrorResponse\<close>, the call returns that variant after
  \<open>receive_response\<close>, with both counters unchanged, no sleep and no further request.
\<close>

theorem other_status_is_terminal:
  assumes "env (sent s) = Inr tr"
    and "parse_wire_response X (call_class c) tr (call_response_data c) = Inr resp"
    and "status tr \<noteq> 429" and "\<not> isinstance resp ErrorResponse"
    and "isinstance resp BaseResponse"
  shows "api_send_from X env c s =
      Some (Inr resp,
            \<lparr>this = (ensured X (this s))\<lparr>base := super_receive_response X resp (base (this s))\<rparr>,
             got_429 = got_429 s, got_timeouts = got_timeouts s, sent = sent s + 1,
             events = events s @ [Request (request_of c (this s))]\<rparr>)"
proof -
  have "succeeded X c (env (sent s)) resp"
    using assms(1-4) by (simp add: succeeded_def)
  from from_break [OF loop_break [OF attempt_succeeded [where env = env and s = s, OF this]] assms(5)]
  show ?thesis by simp
qed

theorem other_status_is_terminal_witness:
  "api_send_from example_externals (\<lambda>i. answer 503 7)
     (example_call (Some 3) (Some 3)) (start (example_client (Some 3) (Some 3)))
   = Some (Inr (Instance \<lparr>resp_class = UsersResponse, retry_after_ms = None, payload = 7\<rparr>),
           \<lparr>this = (ensured example_externals (example_client (Some 3) (Some 3)))\<lparr>base := 1\<rparr>,
            got_429 = 0, got_timeouts = 0, sent = 1,
            events = [Request (request_of (example_call (Some 3) (Some 3))
                                 (example_client (Some 3) (Some 3)))]\<rparr>)"
  using other_status_is_terminal
    [where env = "\<lambda>i. answer 503 7"
       and s = "start (example_client (Some 3) (Some 3))"
       and tr = "\<lparr>status = 503, content_type = ''application/json'', json = Inr 7\<rparr>"
       and resp = "Instance \<lparr>resp_class = UsersResponse, retry_after_ms = None, payload = 7\<rparr>"
       and X = example_externals and c = "example_call (Some 3) (Some 3)"]
  by (simp add: answer_def example_parse_success)

subsection \<open>Headers and decoding\<close>

text \<open>
  C1. The headers of a call carry \<open>Authorization: Bearer <access token>\<close> for every
  target class, the login class included: \<open>api_send\<close> tests
  \<open>isinstance(response_class, response.LoginResponse)\<close> on the class object it was
  given, and a class object is not an instance of that class, so the test never holds
  and the header is never left out. These headers are the ones of every request of the
  call.
\<close>

theorem login_headers_carry_authorization:
  "api_send_headers X self LoginResponse ctype content_length ''Authorization''
     = Some (''Bearer '' @ access_token self)
   \<and> api_send_headers X self response_class ctype content_length ''Authorization''
     = Some (''Bearer '' @ access_token self)
   \<and> req_headers (request_of
        (call_of X self LoginResponse meth path data rd ctype timeout content_length) self)
     = Some (api_send_headers X self LoginResponse ctype content_length)"
  by (simp add: api_send_headers_def request_of_def call_of_def Let_def split: option.split)

text \<open>
  C6. \<open>parse_wire_response\<close> does not use the extra construction data: the response
  class is instantiated without arguments and \<open>parse_data\<close> receives the decoded payload
  only, so the result with extra data is the result without.
\<close>

theorem parse_wire_response_ignores_data:
  "parse_wire_response X response_class transport_response (Some extra)
     = parse_wire_response X response_class transport_response None
   \<and> parse_wire_response X response_class transport_response (Some extra)
     = (case json transport_response of
          Inl e \<Rightarrow> Inl e
        | Inr content \<Rightarrow>
            (case construct X response_class [] of
               Inl e \<Rightarrow> Inl e
             | Inr obj \<Rightarrow> parse_data X obj content))"
  by (simp add: parse_wire_response_def Let_def split: sum.split)

end
